theory Spec2Isabelle
  imports Complex_Main "HOL-Library.Word"
begin

unbundle bit_operations_syntax

section \<open>Data model of the NetSDR source block\<close>

text \<open>
  The block \<open>netsdr_source_c\<close> (lib/netsdr/netsdr_source_c.cc) owns a TCP control socket
  \<open>_t\<close>, a UDP data socket \<open>_u\<close> and the members \<open>_running\<close>, \<open>_sequence\<close>, \<open>_nchan\<close>,
  \<open>_bandwidth\<close> and \<open>_sample_rate\<close>.  Member functions become functions that take the
  session and return the result together with the session they leave behind; a C++
  exception is the \<open>Inl\<close> branch of the result, and the session returned with it is the
  one at the point of the throw (members assigned before the throw stay assigned).

  Platform choices written into the model: \<open>size_t\<close> is 64 bits wide, \<open>int\<close> is 32 bits
  wide, \<open>char\<close> is signed and the host is little-endian (the usual x86-64 ABI).
  \<open>double\<close> and \<open>float\<close> values are modelled by the real numbers they denote: every
  floating-point operation on the modelled paths is exact (comparisons against small
  integer constants, a 16-bit integer times \<open>2\<^sup>-\<^sup>1\<^sup>5\<close>, and quotients that are tested
  for being whole numbers that fit 21 bits).
\<close>

type_synonym byte = "8 word"

datatype error =
  RuntimeError string  \<comment> \<open>\<open>std::runtime_error\<close> thrown by the block itself\<close>
| SystemError          \<comment> \<open>\<open>boost::system::system_error\<close> thrown by a socket operation\<close>
| MemoryFault          \<comment> \<open>an access outside an array or vector (undefined behaviour in C++)\<close>

text \<open>
  What the peer of the control connection does at the next transaction: the write of the
  command throws, the write goes through and the read throws, or the read returns bytes.
  An exhausted script is a closed connection (the write throws).
\<close>

datatype tcp_event = WriteFails | ReadFails | Reply "byte list"

record session =
  running :: bool
  sequence :: "16 word"
  nchan :: nat
  bandwidth :: real
  sample_rate :: real
  tcp_sent :: "byte list list"
  tcp_peer :: "tcp_event list"

section \<open>Channel selector\<close>

text \<open>\<open>cmd[chan_pos] = v\<close> on a C array: outside the array it is a memory fault.\<close>

definition poke :: "byte list \<Rightarrow> nat \<Rightarrow> byte \<Rightarrow> error + byte list" where
  "poke cmd pos v = (if pos < length cmd then Inr (cmd[pos := v]) else Inl MemoryFault)"

definition apply_channel :: "session \<Rightarrow> byte list \<Rightarrow> nat \<Rightarrow> nat \<Rightarrow> error + byte list" where
  "apply_channel s cmd chan_pos chan =
     (if 0 = chan then poke cmd chan_pos 0
      else if 1 = chan then
        (if nchan s < 2 then Inl (RuntimeError ''Channel must be 0 or 1'')
         else poke cmd chan_pos 2)
      else Inl (RuntimeError ''Channel must be 0 or 1''))"

section \<open>Transactions on the control connection\<close>

text \<open>
  \<open>transaction(cmd, size, response)\<close>: one \<open>write_some\<close> of the command, one \<open>read_some\<close>
  into a local buffer of \<open>1024*2\<close> bytes, the bytes read copied into \<open>response\<close>, then
  \<open>return true\<close>.  The write is taken to send the whole command.  Bytes of a reply that
  do not fit the buffer stay in the stream for the next read.
\<close>

definition transaction3 :: "byte list \<Rightarrow> session \<Rightarrow> (error + bool \<times> byte list) \<times> session" where
  "transaction3 cmd s =
     (case tcp_peer s of
        [] \<Rightarrow> (Inl SystemError, s)
      | WriteFails # rest \<Rightarrow> (Inl SystemError, s\<lparr>tcp_peer := rest\<rparr>)
      | ReadFails # rest \<Rightarrow>
          (Inl SystemError, s\<lparr>tcp_sent := tcp_sent s @ [cmd], tcp_peer := rest\<rparr>)
      | Reply bs # rest \<Rightarrow>
          (Inr (True, take 2048 bs),
           s\<lparr>tcp_sent := tcp_sent s @ [cmd],
             tcp_peer := (if 2048 < length bs then Reply (drop 2048 bs) # rest else rest)\<rparr>))"

text \<open>\<open>transaction(cmd, size)\<close>: the response is only compared in size with the request.\<close>

definition transaction2 :: "byte list \<Rightarrow> session \<Rightarrow> (error + bool) \<times> session" where
  "transaction2 cmd s =
     (case transaction3 cmd s of
        (Inl e, s') \<Rightarrow> (Inl e, s')
      | (Inr (ok, response), s') \<Rightarrow>
          if \<not> ok then (Inr False, s')
          else if length response = length cmd then (Inr True, s')
          else (Inr False, s'))"

section \<open>Receiver state\<close>

definition start :: "session \<Rightarrow> (error + bool) \<times> session" where
  "start s =
     transaction2 [0x08, 0x00, 0x18, 0x00, 0x80, 0x02, 0x00, 0x00]
       (s\<lparr>sequence := 0, running := True\<rparr>)"

definition stop :: "session \<Rightarrow> (error + bool) \<times> session" where
  "stop s =
     transaction2 [0x08, 0x00, 0x18, 0x00, 0x00, 0x01, 0x00, 0x00]
       (s\<lparr>running := False\<rparr>)"

section \<open>Frequency and gain\<close>

text \<open>Four bytes of the response put together as \<open>b0 | b1 << 8 | b2 << 16 | b3 << 24\<close>.\<close>

definition le32 :: "byte \<Rightarrow> byte \<Rightarrow> byte \<Rightarrow> byte \<Rightarrow> 32 word" where
  "le32 b0 b1 b2 b3 =
     ucast b0 OR push_bit 8 (ucast b1) OR push_bit 16 (ucast b2) OR push_bit 24 (ucast b3)"

text \<open>
  \<open>unsigned char freq[10] = { 0x05, 0x20, 0x20, 0x00, 0x00 }\<close> is ten bytes long, the
  last five zero, and all ten are sent.  The frequency is read at \<open>size-5 .. size-2\<close> of
  the response; with fewer than five bytes these indices lie outside the vector.
\<close>

definition get_center_freq :: "nat \<Rightarrow> session \<Rightarrow> (error + real) \<times> session" where
  "get_center_freq chan s =
     (case apply_channel s [0x05, 0x20, 0x20, 0x00, 0x00, 0, 0, 0, 0, 0] 4 chan of
        Inl e \<Rightarrow> (Inl e, s)
      | Inr freq \<Rightarrow>
          (case transaction3 freq s of
             (Inl e, s') \<Rightarrow> (Inl e, s')
           | (Inr (ok, response), s') \<Rightarrow>
               if \<not> ok then (Inl (RuntimeError ''get_center_freq failed''), s')
               else if length response < 5 then (Inl MemoryFault, s')
               else
                 let n = length response;
                     frequency = le32 (response ! (n - 5)) (response ! (n - 4))
                                      (response ! (n - 3)) (response ! (n - 2))
                 in (Inr (real (unat frequency)), s')))"

text \<open>
  \<open>return (char) response[response.size()-1]\<close>: the last byte read as a signed char and
  converted to double; on an empty response the index is outside the vector.
\<close>

definition get_gain :: "nat \<Rightarrow> session \<Rightarrow> (error + real) \<times> session" where
  "get_gain chan s =
     (case apply_channel s [0x05, 0x20, 0x38, 0x00, 0x00] 4 chan of
        Inl e \<Rightarrow> (Inl e, s)
      | Inr atten \<Rightarrow>
          (case transaction3 atten s of
             (Inl e, s') \<Rightarrow> (Inl e, s')
           | (Inr (ok, response), s') \<Rightarrow>
               if \<not> ok then (Inl (RuntimeError ''get_gain failed''), s')
               else if response = [] then (Inl MemoryFault, s')
               else (Inr (real_of_int (sint (response ! (length response - 1)))), s')))"

definition set_gain :: "real \<Rightarrow> nat \<Rightarrow> session \<Rightarrow> (error + real) \<times> session" where
  "set_gain gain chan s =
     (case apply_channel s [0x06, 0x00, 0x38, 0x00, 0x00, 0x00] 4 chan of
        Inl e \<Rightarrow> (Inl e, s)
      | Inr atten0 \<Rightarrow>
          let atten =
                (if gain \<le> -30 then atten0[5 := 0xE2]
                 else if gain \<le> -20 then atten0[5 := 0xEC]
                 else if gain \<le> -10 then atten0[5 := 0xF6]
                 else atten0[5 := 0x00])
          in (case transaction2 atten s of
                (Inl e, s') \<Rightarrow> (Inl e, s')
              | (Inr _, s') \<Rightarrow> get_gain chan s'))"

section \<open>Bandwidth\<close>

definition BANDWIDTH :: real where
  "BANDWIDTH = 34000000"

definition get_bandwidth :: "session \<Rightarrow> real" where
  "get_bandwidth s = bandwidth s"

definition set_bandwidth :: "real \<Rightarrow> nat \<Rightarrow> session \<Rightarrow> (error + real) \<times> session" where
  "set_bandwidth bw chan s =
     (case apply_channel s [0x06, 0x00, 0x44, 0x00, 0x00, 0x00] 4 chan of
        Inl e \<Rightarrow> (Inl e, s)
      | Inr filter0 \<Rightarrow>
          let (s1, filter1) =
                (if 0 = bw then (s\<lparr>bandwidth := 0\<rparr>, filter0[5 := 0x00])
                 else if BANDWIDTH = bw then (s\<lparr>bandwidth := BANDWIDTH\<rparr>, filter0[5 := 0x0B])
                 else (s, filter0))
          in (case transaction2 filter1 s1 of
                (Inl e, s') \<Rightarrow> (Inl e, s')
              | (Inr _, s') \<Rightarrow> (Inr (get_bandwidth s'), s')))"

section \<open>Sample rates\<close>

definition MAX_RATE :: real where
  "MAX_RATE = 2000000"

text \<open>
  \<open>for ( size_t i = 625; i >= 10; i-- )\<close> with the \<open>break\<close> and the list \<open>range\<close>
  (here \<open>range'\<close>) that \<open>+=\<close> appends to.  The counter stops at 9 and never wraps.
\<close>

function rates_loop :: "nat \<Rightarrow> nat \<Rightarrow> real list \<Rightarrow> real list" where
  "rates_loop n i range' =
     (if i \<ge> 10 then
        (if 80000000 / (4 * real i) > MAX_RATE / real n then range'
         else rates_loop n (i - 1)
                (if real_of_int \<lfloor>80000000 / (4 * real i)\<rfloor> = 80000000 / (4 * real i)
                 then range' @ [80000000 / (4 * real i)] else range'))
      else range')"
  by pat_completeness auto
termination
  by (relation "measure (\<lambda>(n, i, range'). i)") auto

declare rates_loop.simps [simp del]

definition get_sample_rates :: "session \<Rightarrow> real list" where
  "get_sample_rates s = rates_loop (nchan s) 625 []"

section \<open>Streaming decoder\<close>

type_synonym gr_complex = "real \<times> real"

definition WORK_DONE :: int where
  "WORK_DONE = -1"

definition SCALE_16 :: real where
  "SCALE_16 = 1 / 32768"

text \<open>What the UDP socket does when \<open>receive_from\<close> is called.\<close>

datatype udp_event = RecvFails | Datagram "byte list"

text \<open>
  What one call of \<open>work\<close> hands back: the return value, the items written to
  \<open>output_items[0]\<close> and \<open>output_items[1]\<close> from index 0 on, and the packet count of the
  \<open>Lost ... packets\<close> line on \<open>std::cerr\<close> when there is one.  The output buffers belong
  to the scheduler and are taken to be large enough.
\<close>

record work_result =
  noutput_items :: int
  out1 :: "gr_complex list"
  out2 :: "gr_complex list"
  lost :: "16 word option"

definition no_items :: "int \<Rightarrow> work_result" where
  "no_items r = \<lparr>noutput_items = r, out1 = [], out2 = [], lost = None\<rparr>"

text \<open>
  \<open>*(sample + k)\<close> for \<open>int16_t *sample = (int16_t *)(data + HEADER_SIZE + SEQNUM_SIZE)\<close>,
  converted to float.
\<close>

definition sample_at :: "(nat \<Rightarrow> byte) \<Rightarrow> nat \<Rightarrow> real" where
  "sample_at data k =
     real_of_int (sint (word_cat (data (2 + 2 + 2 * k + 1)) (data (2 + 2 + 2 * k)) :: 16 word))"

text \<open>The two copy loops; \<open>sample\<close> counts the 16-bit values the pointer has advanced.\<close>

function loop1 :: "(nat \<Rightarrow> byte) \<Rightarrow> nat \<Rightarrow> nat \<Rightarrow> nat \<Rightarrow> gr_complex list" where
  "loop1 data rx_samples i sample =
     (if i < rx_samples then
        (sample_at data (sample + 0) * SCALE_16, sample_at data (sample + 1) * SCALE_16)
          # loop1 data rx_samples (i + 1) (sample + 2)
      else [])"
  by pat_completeness auto
termination
  by (relation "measure (\<lambda>(data, rx_samples, i, sample). rx_samples - i)") auto

declare loop1.simps [simp del]

function loop2 :: "(nat \<Rightarrow> byte) \<Rightarrow> nat \<Rightarrow> nat \<Rightarrow> nat \<Rightarrow> gr_complex list \<times> gr_complex list" where
  "loop2 data rx_samples i sample =
     (if i < rx_samples then
        (let (o1, o2) = loop2 data rx_samples (i + 1) (sample + 4)
         in ((sample_at data (sample + 0) * SCALE_16, sample_at data (sample + 1) * SCALE_16) # o1,
             (sample_at data (sample + 2) * SCALE_16, sample_at data (sample + 3) * SCALE_16) # o2))
      else ([], []))"
  by pat_completeness auto
termination
  by (relation "measure (\<lambda>(data, rx_samples, i, sample). rx_samples - i)") auto

declare loop2.simps [simp del]

text \<open>
  \<open>work\<close>.  \<open>stale\<close> is what the local array \<open>data[1024*2]\<close> holds before the receive
  (it is not initialised); the datagram overwrites its first \<open>rx_bytes\<close> bytes.
  \<open>rx_samples\<close> is a \<open>size_t\<close>, so \<open>rx_bytes - HEADER_SIZE - SEQNUM_SIZE\<close> wraps below
  four bytes.  A loop whose reads leave the array is a memory fault.
\<close>

definition work :: "(nat \<Rightarrow> byte) \<Rightarrow> udp_event \<Rightarrow> session \<Rightarrow> (error + work_result) \<times> session" where
  "work stale rx s =
     (if \<not> running s then (Inr (no_items WORK_DONE), s)
      else case rx of
        RecvFails \<Rightarrow> (Inl SystemError, s)
      | Datagram dgram \<Rightarrow>
          let rx_bytes = min (length dgram) (1024 * 2);
              data = (\<lambda>i. if i < rx_bytes then dgram ! i else stale i)
          in if 0x04 = data 0 \<and> (0x84 = data 1 \<or> 0x82 = data 1) then
               let sequence' = (word_cat (data 3) (data 2) :: 16 word);
                   diff = sequence' - sequence s;
                   report = (if diff > 1 then Some diff else None);
                   s' = s\<lparr>sequence := (if 0xffff = sequence' then 0 else sequence')\<rparr>;
                   rx_samples = ((of_nat rx_bytes - 2 - 2) div (2 * 2) :: 64 word)
               in if 1 = nchan s then
                    (if 1024 * 2 < 2 + 2 + 4 * unat rx_samples then (Inl MemoryFault, s')
                     else (Inr \<lparr>noutput_items = sint (ucast rx_samples :: 32 word),
                                out1 = loop1 data (unat rx_samples) 0 0,
                                out2 = [], lost = report\<rparr>, s'))
                  else if 2 = nchan s then
                    (let rx_samples2 = rx_samples div 2
                     in if 1024 * 2 < 2 + 2 + 8 * unat rx_samples2 then (Inl MemoryFault, s')
                        else (Inr \<lparr>noutput_items = sint (ucast rx_samples2 :: 32 word),
                                   out1 = fst (loop2 data (unat rx_samples2) 0 0),
                                   out2 = snd (loop2 data (unat rx_samples2) 0 0),
                                   lost = report\<rparr>, s'))
                  else (Inr \<lparr>noutput_items = sint (ucast rx_samples :: 32 word),
                             out1 = [], out2 = [], lost = report\<rparr>, s')
             else if (0xA4 = data 0 \<and> 0x85 = data 1) \<or> (0x84 = data 0 \<and> 0x81 = data 1) then
               (Inr (no_items 0), s)
             else (Inr (no_items 0), s))"

text \<open>The scheduler calling \<open>work\<close> once per datagram, the results in call order.\<close>

fun work_each :: "(nat \<Rightarrow> byte) \<Rightarrow> byte list list \<Rightarrow> session \<Rightarrow> (error + work_result) list \<times> session" where
  "work_each stale [] s = ([], s)"
| "work_each stale (d # ds) s =
     (let (r, s') = work stale (Datagram d) s;
          (rs, s'') = work_each stale ds s'
      in (r # rs, s''))"

text \<open>The session right after the constructor and \<open>start\<close>, with a silent peer.\<close>

definition started :: "nat \<Rightarrow> session" where
  "started n = \<lparr>running = True, sequence = 0, nchan = n, bandwidth = 0,
                sample_rate = 500000, tcp_sent = [], tcp_peer = []\<rparr>"

text \<open>A stopped session whose peer answers the next transactions with the given replies.\<close>

definition answering :: "nat \<Rightarrow> byte list list \<Rightarrow> session" where
  "answering n replies = \<lparr>running = False, sequence = 0, nchan = n, bandwidth = 0,
     sample_rate = 500000, tcp_sent = [], tcp_peer = map Reply replies\<rparr>"

text \<open>A session after \<open>set_bandwidth(34e6)\<close>, the peer about to echo one filter command.\<close>

definition bypassed :: session where
  "bypassed = \<lparr>running = False, sequence = 0, nchan = 1, bandwidth = 34000000,
               sample_rate = 500000, tcp_sent = [],
               tcp_peer = [Reply [0x06, 0x00, 0x44, 0x00, 0x00, 0x00]]\<rparr>"

text \<open>A receive buffer that held zeros before the call.\<close>

definition zeroed :: "nat \<Rightarrow> byte" where
  "zeroed i = 0"

text \<open>
  The \<open>k\<close>-th little-endian signed 16-bit value of a datagram's payload, the payload
  starting after the two header bytes and the two sequence bytes.
\<close>

definition payload_s16 :: "byte list \<Rightarrow> nat \<Rightarrow> real" where
  "payload_s16 dgram k =
     real_of_int (sint (word_cat (dgram ! (4 + 2 * k + 1)) (dgram ! (4 + 2 * k)) :: 16 word))"

text \<open>The loss reports of a run of \<open>work\<close> calls, one entry per call.\<close>

definition reports :: "(error + work_result) list \<Rightarrow> (error + 16 word option) list" where
  "reports rs = map (map_sum id lost) rs"

section \<open>Channel selector: properties\<close>

text \<open>
  C6.  Selector 0 succeeds and writes control byte 0; selector 1 succeeds with two
  channels and writes control byte 2; selector 1 with one channel fails with the
  invalid-channel error; every other selector fails with the invalid-channel error.
  The position written is inside the command, as at every call site (position 4 of a
  command of at least five bytes).
\<close>

theorem apply_channel_selector:
  assumes "chan_pos < length cmd"
  shows "apply_channel s cmd chan_pos 0 = Inr (cmd[chan_pos := 0]) \<and>
    (nchan s = 2 \<longrightarrow> apply_channel s cmd chan_pos 1 = Inr (cmd[chan_pos := 2])) \<and>
    (nchan s = 1 \<longrightarrow>
       apply_channel s cmd chan_pos 1 = Inl (RuntimeError ''Channel must be 0 or 1'')) \<and>
    (chan \<noteq> 0 \<and> chan \<noteq> 1 \<longrightarrow>
       apply_channel s cmd chan_pos chan = Inl (RuntimeError ''Channel must be 0 or 1''))"
  using assms by (simp add: apply_channel_def poke_def)

theorem apply_channel_selector_witness:
  "apply_channel (answering 2 []) [0x05, 0x20, 0x38, 0x00, 0x00] 4 0 =
     Inr [0x05, 0x20, 0x38, 0x00, 0x00] \<and>
   apply_channel (answering 2 []) [0x05, 0x20, 0x38, 0x00, 0x00] 4 1 =
     Inr [0x05, 0x20, 0x38, 0x00, 0x02] \<and>
   apply_channel (answering 1 []) [0x05, 0x20, 0x38, 0x00, 0x00] 4 1 =
     Inl (RuntimeError ''Channel must be 0 or 1'') \<and>
   apply_channel (answering 1 []) [0x05, 0x20, 0x38, 0x00, 0x00] 4 7 =
     Inl (RuntimeError ''Channel must be 0 or 1'')"
  using apply_channel_selector [of 4 "[0x05, 0x20, 0x38, 0x00, 0x00]" "answering 2 []" 7]
    apply_channel_selector [of 4 "[0x05, 0x20, 0x38, 0x00, 0x00]" "answering 1 []" 7]
  by (simp add: answering_def)

section \<open>Transactions: properties\<close>

lemma transaction3_cases:
  "(\<exists>s'. transaction3 cmd s = (Inl SystemError, s')) \<or>
   (\<exists>response s'. transaction3 cmd s = (Inr (True, response), s'))"
  by (simp add: transaction3_def split: list.split tcp_event.split)

lemma transaction2_running: "running (snd (transaction2 cmd s)) = running s"
  by (simp add: transaction2_def transaction3_def split: list.split tcp_event.split)

lemma transaction2_bandwidth: "bandwidth (snd (transaction2 cmd s)) = bandwidth s"
  by (simp add: transaction2_def transaction3_def split: list.split tcp_event.split)

lemma transaction2_sent:
  "tcp_peer s = ev # rest \<Longrightarrow> ev \<noteq> WriteFails \<Longrightarrow>
   tcp_sent (snd (transaction2 cmd s)) = tcp_sent s @ [cmd]"
  by (cases ev) (simp_all add: transaction2_def transaction3_def)

text \<open>
  C9.  Whenever the three-argument transaction returns at all, it returns true; its only
  failure is the exception of the socket.  So \<open>get_center_freq\<close> and \<open>get_gain\<close> never
  raise their \<open>... failed\<close> runtime errors.
\<close>

theorem transaction3_true:
  "(\<forall>ok response s'. transaction3 cmd s = (Inr (ok, response), s') \<longrightarrow> ok) \<and>
   (\<forall>e s'. transaction3 cmd s = (Inl e, s') \<longrightarrow> e = SystemError) \<and>
   fst (get_center_freq chan s) \<noteq> Inl (RuntimeError ''get_center_freq failed'') \<and>
   fst (get_gain chan s) \<noteq> Inl (RuntimeError ''get_gain failed'')"
proof (intro conjI allI impI)
  fix ok response s' assume "transaction3 cmd s = (Inr (ok, response), s')"
  then show ok using transaction3_cases [of cmd s] by auto
next
  fix e s' assume "transaction3 cmd s = (Inl e, s')"
  then show "e = SystemError" using transaction3_cases [of cmd s] by auto
next
  show "fst (get_center_freq chan s) \<noteq> Inl (RuntimeError ''get_center_freq failed'')"
  proof (cases "apply_channel s [0x05, 0x20, 0x20, 0x00, 0x00, 0, 0, 0, 0, 0] 4 chan")
    case (Inl e)
    then show ?thesis
      by (auto simp: get_center_freq_def apply_channel_def poke_def split: if_splits)
  next
    case (Inr freq)
    then show ?thesis
      using transaction3_cases [of freq s]
      by (auto simp: get_center_freq_def Let_def split: if_splits)
  qed
next
  show "fst (get_gain chan s) \<noteq> Inl (RuntimeError ''get_gain failed'')"
  proof (cases "apply_channel s [0x05, 0x20, 0x38, 0x00, 0x00] 4 chan")
    case (Inl e)
    then show ?thesis
      by (auto simp: get_gain_def apply_channel_def poke_def split: if_splits)
  next
    case (Inr atten)
    then show ?thesis
      using transaction3_cases [of atten s]
      by (auto simp: get_gain_def split: if_splits)
  qed
qed

theorem transaction3_true_witness:
  "transaction3 [0x04, 0x20, 0x01, 0x00] (answering 1 [[0x04, 0x20, 0x01, 0x00]]) =
     (Inr (True, [0x04, 0x20, 0x01, 0x00]),
      (answering 1 [])\<lparr>tcp_sent := [[0x04, 0x20, 0x01, 0x00]]\<rparr>) \<and>
   transaction3 [0x04, 0x20, 0x01, 0x00] (answering 1 []) = (Inl SystemError, answering 1 []) \<and>
   fst (get_gain 0 (answering 1 [])) = Inl SystemError"
  using transaction3_true [of "[0x04, 0x20, 0x01, 0x00]" "answering 1 [[0x04, 0x20, 0x01, 0x00]]" 0]
    transaction3_true [of "[0x04, 0x20, 0x01, 0x00]" "answering 1 []" 0]
  by (simp add: transaction3_def get_gain_def apply_channel_def poke_def answering_def)

section \<open>Stopping\<close>

text \<open>
  C7.  After \<open>stop\<close> the running flag is false whatever the transaction did (also when
  it threw), and the next call of \<open>work\<close> returns \<open>WORK_DONE\<close> without looking at the
  socket: the result is the same for every receive outcome.
\<close>

theorem stop_leaves_stopped:
  "running (snd (stop s)) = False \<and>
   work stale rx (snd (stop s)) = (Inr (no_items WORK_DONE), snd (stop s))"
  by (simp add: stop_def transaction2_running work_def)

theorem stop_leaves_stopped_witness:
  "fst (stop (started 1)) = Inl SystemError \<and>
   running (snd (stop (started 1))) = False \<and>
   fst (work zeroed (Datagram [0x04, 0x84, 0x01, 0x00]) (snd (stop (started 1)))) =
     Inr (no_items (- 1))"
  using stop_leaves_stopped [of "started 1" zeroed "Datagram [0x04, 0x84, 0x01, 0x00]"]
  by (simp add: stop_def transaction2_def transaction3_def started_def WORK_DONE_def)

section \<open>Gain\<close>

lemma sint_byte_range: "- 128 \<le> sint (b :: byte) \<and> sint b \<le> 127"
  using sint_range_size [of b] by (simp add: word_size)

lemma get_gain_reply:
  assumes "chan = 0 \<or> chan = 1 \<and> 2 \<le> nchan s"
    and "tcp_peer s = Reply (pre @ [b]) # rest" and "length pre < 2048"
  shows "fst (get_gain chan s) = Inr (real_of_int (sint b))"
  using assms
  by (auto simp: get_gain_def apply_channel_def poke_def transaction3_def nth_append)

lemma get_gain_sent: "\<exists>more. tcp_sent (snd (get_gain chan s)) = tcp_sent s @ more"
  by (auto simp: get_gain_def transaction3_def split: sum.split list.split tcp_event.split)

text \<open>
  C10.  Whatever \<open>get_gain\<close> returns lies between -128 and 127.  When the device answers
  with a response of at most 2048 bytes, the value returned is the last byte of the
  response read as a signed 8-bit integer, so the codes \<open>E2\<close>, \<open>EC\<close>, \<open>F6\<close> and \<open>00\<close> read
  back as -30, -20, -10 and 0.
\<close>

theorem get_gain_signed_byte:
  "(\<forall>g s'. get_gain chan s = (Inr g, s') \<longrightarrow> - 128 \<le> g \<and> g \<le> 127) \<and>
   (\<forall>pre b rest. (chan = 0 \<or> chan = 1 \<and> 2 \<le> nchan s) \<and>
        tcp_peer s = Reply (pre @ [b]) # rest \<and> length pre < 2048 \<longrightarrow>
      fst (get_gain chan s) = Inr (real_of_int (sint b)) \<and>
      (b = 0xE2 \<longrightarrow> fst (get_gain chan s) = Inr (- 30)) \<and>
      (b = 0xEC \<longrightarrow> fst (get_gain chan s) = Inr (- 20)) \<and>
      (b = 0xF6 \<longrightarrow> fst (get_gain chan s) = Inr (- 10)) \<and>
      (b = 0x00 \<longrightarrow> fst (get_gain chan s) = Inr 0))"
proof (intro conjI allI impI)
  fix g s' assume "get_gain chan s = (Inr g, s')"
  then obtain b :: byte where "g = real_of_int (sint b)"
    by (auto simp: get_gain_def split: sum.splits prod.splits if_splits)
  then show "- 128 \<le> g" "g \<le> 127"
    using sint_byte_range [of b] by linarith+
next
  fix pre b rest
  assume a: "(chan = 0 \<or> chan = 1 \<and> 2 \<le> nchan s) \<and>
        tcp_peer s = Reply (pre @ [b]) # rest \<and> length pre < 2048"
  then have g: "fst (get_gain chan s) = Inr (real_of_int (sint b))"
    using get_gain_reply [of chan s pre b rest] by blast
  show "fst (get_gain chan s) = Inr (real_of_int (sint b))" by (rule g)
  show "b = 0xE2 \<Longrightarrow> fst (get_gain chan s) = Inr (- 30)" using g by simp
  show "b = 0xEC \<Longrightarrow> fst (get_gain chan s) = Inr (- 20)" using g by simp
  show "b = 0xF6 \<Longrightarrow> fst (get_gain chan s) = Inr (- 10)" using g by simp
  show "b = 0x00 \<Longrightarrow> fst (get_gain chan s) = Inr 0" using g by simp
qed

theorem get_gain_signed_byte_witness:
  "get_gain 0 (answering 1 [[0x06, 0x20, 0x38, 0x00, 0x00, 0xE2]]) =
     (Inr (- 30), (answering 1 [])\<lparr>tcp_sent := [[0x05, 0x20, 0x38, 0x00, 0x00]]\<rparr>) \<and>
   - 128 \<le> (- 30 :: real) \<and> (- 30 :: real) \<le> 127"
  using get_gain_signed_byte [of 0 "answering 1 [[0x06, 0x20, 0x38, 0x00, 0x00, 0xE2]]"]
  by (simp add: get_gain_def apply_channel_def poke_def transaction3_def answering_def)

text \<open>
  C1, as amended.  For a channel that \<open>apply_channel\<close> accepts and a transaction whose
  write goes through, the first command \<open>set_gain\<close> sends is the RF gain command with
  the attenuation code of the step table: at most -30 gives \<open>E2\<close>, at most -20 gives
  \<open>EC\<close>, at most -10 gives \<open>F6\<close>, anything else gives \<open>00\<close>.  The inputs
  -30, -25, -15, -5, 0, 5 therefore give \<open>E2\<close>, \<open>EC\<close>, \<open>F6\<close>, \<open>00\<close>, \<open>00\<close>, \<open>00\<close>.
\<close>

theorem set_gain_attenuation_code:
  assumes "chan = 0 \<or> chan = 1 \<and> 2 \<le> nchan s"
    and "tcp_peer s = ev # rest" and "ev \<noteq> WriteFails"
  shows "\<exists>code more.
           tcp_sent (snd (set_gain gain chan s)) =
             tcp_sent s @ [[0x06, 0x00, 0x38, 0x00, if chan = 0 then 0 else 2, code]] @ more \<and>
           code = (if gain \<le> - 30 then 0xE2 else if gain \<le> - 20 then 0xEC
                   else if gain \<le> - 10 then 0xF6 else 0x00) \<and>
           (gain = - 30 \<longrightarrow> code = 0xE2) \<and> (gain = - 25 \<longrightarrow> code = 0xEC) \<and>
           (gain = - 15 \<longrightarrow> code = 0xF6) \<and> (gain = - 5 \<longrightarrow> code = 0x00) \<and>
           (gain = 0 \<longrightarrow> code = 0x00) \<and> (gain = 5 \<longrightarrow> code = 0x00)"
proof -
  define code :: byte where
    "code = (if gain \<le> - 30 then 0xE2 else if gain \<le> - 20 then 0xEC
             else if gain \<le> - 10 then 0xF6 else 0x00)"
  define atten :: "byte list" where
    "atten = [0x06, 0x00, 0x38, 0x00, if chan = 0 then 0 else 2, code]"
  have ac: "apply_channel s [0x06, 0x00, 0x38, 0x00, 0x00, 0x00] 4 chan =
              Inr [0x06, 0x00, 0x38, 0x00, if chan = 0 then 0 else 2, 0x00]"
    using assms(1) by (auto simp: apply_channel_def poke_def)
  have upd: "(if gain \<le> - 30 then [0x06, 0x00, 0x38, 0x00, if chan = 0 then 0 else 2, 0x00][5 := 0xE2]
              else if gain \<le> - 20 then [0x06, 0x00, 0x38, 0x00, if chan = 0 then 0 else 2, 0x00][5 := 0xEC]
              else if gain \<le> - 10 then [0x06, 0x00, 0x38, 0x00, if chan = 0 then 0 else 2, 0x00][5 := 0xF6]
              else [0x06, 0x00, 0x38, 0x00, if chan = 0 then 0 else 2, 0x00][5 := 0x00]) = atten"
    by (simp add: atten_def code_def)
  obtain r s1 where t2: "transaction2 atten s = (r, s1)" and s1: "tcp_sent s1 = tcp_sent s @ [atten]"
    using transaction2_sent [OF assms(2,3), of atten]
    by (cases "transaction2 atten s") simp
  have sg: "set_gain gain chan s = (case r of Inl e \<Rightarrow> (Inl e, s1) | Inr _ \<Rightarrow> get_gain chan s1)"
    unfolding set_gain_def ac by (simp add: Let_def upd t2 split: sum.split)
  have "\<exists>more. tcp_sent (snd (set_gain gain chan s)) = tcp_sent s @ [atten] @ more"
  proof (cases r)
    case (Inl e)
    then show ?thesis using s1 by (simp add: sg)
  next
    case (Inr b)
    then show ?thesis using get_gain_sent [of chan s1] s1 by (auto simp: sg)
  qed
  then obtain more where
    "tcp_sent (snd (set_gain gain chan s)) = tcp_sent s @ [atten] @ more" ..
  moreover have "(gain = - 30 \<longrightarrow> code = 0xE2) \<and> (gain = - 25 \<longrightarrow> code = 0xEC) \<and>
           (gain = - 15 \<longrightarrow> code = 0xF6) \<and> (gain = - 5 \<longrightarrow> code = 0x00) \<and>
           (gain = 0 \<longrightarrow> code = 0x00) \<and> (gain = 5 \<longrightarrow> code = 0x00)"
    by (simp add: code_def)
  ultimately show ?thesis
    unfolding atten_def using code_def by blast
qed

theorem set_gain_attenuation_code_witness:
  "\<exists>more. tcp_sent (snd (set_gain (- 30) 1
      (answering 2 [[0x06, 0x00, 0x38, 0x00, 0x02, 0xE2], [0x06, 0x00, 0x38, 0x00, 0x02, 0xE2]]))) =
     [[0x06, 0x00, 0x38, 0x00, 0x02, 0xE2]] @ more"
  using set_gain_attenuation_code [of 1
      "answering 2 [[0x06, 0x00, 0x38, 0x00, 0x02, 0xE2], [0x06, 0x00, 0x38, 0x00, 0x02, 0xE2]]"
      "Reply [0x06, 0x00, 0x38, 0x00, 0x02, 0xE2]" "[Reply [0x06, 0x00, 0x38, 0x00, 0x02, 0xE2]]" "- 30"]
  by (simp add: answering_def)

text \<open>
  C1 as stated fails at -25, -15 and -5: the codes sent are \<open>EC\<close>, \<open>F6\<close> and \<open>00\<close>,
  not \<open>E2\<close>, \<open>EC\<close> and \<open>F6\<close>.
\<close>

theorem set_gain_counterexample:
  "tcp_sent (snd (set_gain (- 25) 0
      (answering 1 [[0x06, 0x00, 0x38, 0x00, 0x00, 0xEC], [0x06, 0x00, 0x38, 0x00, 0x00, 0xEC]]))) =
     [[0x06, 0x00, 0x38, 0x00, 0x00, 0xEC], [0x05, 0x20, 0x38, 0x00, 0x00]] \<and>
   tcp_sent (snd (set_gain (- 15) 0
      (answering 1 [[0x06, 0x00, 0x38, 0x00, 0x00, 0xF6], [0x06, 0x00, 0x38, 0x00, 0x00, 0xF6]]))) =
     [[0x06, 0x00, 0x38, 0x00, 0x00, 0xF6], [0x05, 0x20, 0x38, 0x00, 0x00]] \<and>
   tcp_sent (snd (set_gain (- 5) 0
      (answering 1 [[0x06, 0x00, 0x38, 0x00, 0x00, 0x00], [0x06, 0x00, 0x38, 0x00, 0x00, 0x00]]))) =
     [[0x06, 0x00, 0x38, 0x00, 0x00, 0x00], [0x05, 0x20, 0x38, 0x00, 0x00]]"
  by (simp add: set_gain_def get_gain_def apply_channel_def poke_def
        transaction2_def transaction3_def answering_def)

section \<open>Bandwidth: properties\<close>

text \<open>
  What the fall-through of \<open>set_bandwidth\<close> does for a bandwidth other than 0 and
  34 MHz: neither branch assigns \<open>_bandwidth\<close> or the filter byte, and the transaction
  that follows is unconditional, so the command goes out with its initial filter byte
  \<open>00\<close>.
\<close>

lemma set_bandwidth_fall_through:
  assumes "bw \<noteq> 0" and "bw \<noteq> BANDWIDTH"
  shows "bandwidth (snd (set_bandwidth bw chan s)) = bandwidth s \<and>
        ((chan = 0 \<or> chan = 1 \<and> 2 \<le> nchan s) \<and> tcp_peer s = Reply r # rest \<longrightarrow>
         fst (set_bandwidth bw chan s) = Inr (bandwidth s) \<and>
         tcp_sent (snd (set_bandwidth bw chan s)) =
           tcp_sent s @ [[0x06, 0x00, 0x44, 0x00, if chan = 0 then 0 else 2, 0x00]])"
proof
  show "bandwidth (snd (set_bandwidth bw chan s)) = bandwidth s"
  proof (cases "apply_channel s [0x06, 0x00, 0x44, 0x00, 0x00, 0x00] 4 chan")
    case (Inl e)
    then show ?thesis by (simp add: set_bandwidth_def)
  next
    case (Inr filter0)
    then show ?thesis
      using assms transaction2_bandwidth [of filter0 s]
      by (auto simp: set_bandwidth_def get_bandwidth_def split: prod.split sum.split)
  qed
  show "(chan = 0 \<or> chan = 1 \<and> 2 \<le> nchan s) \<and> tcp_peer s = Reply r # rest \<longrightarrow>
         fst (set_bandwidth bw chan s) = Inr (bandwidth s) \<and>
         tcp_sent (snd (set_bandwidth bw chan s)) =
           tcp_sent s @ [[0x06, 0x00, 0x44, 0x00, if chan = 0 then 0 else 2, 0x00]]"
    using assms
    by (auto simp: set_bandwidth_def get_bandwidth_def apply_channel_def poke_def
        transaction2_def transaction3_def)
qed

text \<open>
  C8 fails on the code: a bandwidth other than 0 and 34 MHz is not ignored.  With the
  bypass filter selected (\<open>_bandwidth\<close> = 34 MHz), a request for 1000 Hz sends the very
  command that a request for 0 sends, filter byte \<open>00\<close>, which switches the device to
  selection by NCO frequency; yet the cached bandwidth and the value returned stay
  34 MHz.  The two branches that the code handles assign the cache and the filter byte
  together: a request for 0 sends \<open>00\<close> and caches 0, a request for 34 MHz sends \<open>0B\<close>
  and caches 34 MHz.
\<close>

theorem set_bandwidth_desync:
  "tcp_sent (snd (set_bandwidth 1000 0 bypassed)) = [[0x06, 0x00, 0x44, 0x00, 0x00, 0x00]] \<and>
   tcp_sent (snd (set_bandwidth 1000 0 bypassed)) \<noteq> tcp_sent bypassed \<and>
   tcp_sent (snd (set_bandwidth 1000 0 bypassed)) = tcp_sent (snd (set_bandwidth 0 0 bypassed)) \<and>
   bandwidth (snd (set_bandwidth 1000 0 bypassed)) = 34000000 \<and>
   fst (set_bandwidth 1000 0 bypassed) = Inr 34000000 \<and>
   bandwidth (snd (set_bandwidth 0 0 bypassed)) = 0 \<and>
   fst (set_bandwidth 0 0 bypassed) = Inr 0 \<and>
   tcp_sent (snd (set_bandwidth 34000000 0 bypassed)) = [[0x06, 0x00, 0x44, 0x00, 0x00, 0x0B]] \<and>
   bandwidth (snd (set_bandwidth 34000000 0 bypassed)) = 34000000"
  by (simp add: set_bandwidth_def get_bandwidth_def apply_channel_def poke_def
        transaction2_def transaction3_def bypassed_def BANDWIDTH_def)

section \<open>Sample rates: properties\<close>

lemma rates_loop_inv:
  assumes "sorted rng" and "i \<le> 625"
    and "\<forall>r\<in>set rng. r \<le> 80000000 / (4 * real i) \<and> r \<le> MAX_RATE / real n \<and> r \<in> \<int> \<and>
           (\<exists>j. 10 \<le> j \<and> j \<le> 625 \<and> r = 80000000 / (4 * real j))"
  shows "sorted (rates_loop n i rng) \<and>
         (\<forall>r\<in>set (rates_loop n i rng). r \<le> MAX_RATE / real n \<and> r \<in> \<int> \<and>
           (\<exists>j. 10 \<le> j \<and> j \<le> 625 \<and> r = 80000000 / (4 * real j)))"
  using assms
proof (induction n i rng rule: rates_loop.induct)
  case (1 n i rng)
  show ?case
  proof (cases "10 \<le> i \<and> \<not> 80000000 / (4 * real i) > MAX_RATE / real n")
    case False
    then have "rates_loop n i rng = rng"
      by (subst rates_loop.simps) auto
    then show ?thesis using "1.prems" by auto
  next
    case True
    define rate where "rate = 80000000 / (4 * real i)"
    define rng' where "rng' = (if real_of_int \<lfloor>rate\<rfloor> = rate then rng @ [rate] else rng)"
    have step: "rates_loop n i rng = rates_loop n (i - 1) rng'"
      using True by (subst rates_loop.simps) (simp add: rate_def rng'_def)
    have mono: "rate \<le> 80000000 / (4 * real (i - 1))"
      using True unfolding rate_def by (intro divide_left_mono) (auto simp: of_nat_diff)
    have int: "real_of_int \<lfloor>rate\<rfloor> = rate \<Longrightarrow> rate \<in> \<int>"
      by (metis Ints_of_int)
    have srt: "sorted rng'"
      using "1.prems"(1,3) by (auto simp: rng'_def sorted_append rate_def)
    have bnd: "\<forall>r\<in>set rng'. r \<le> 80000000 / (4 * real (i - 1)) \<and> r \<le> MAX_RATE / real n \<and>
        r \<in> \<int> \<and> (\<exists>j. 10 \<le> j \<and> j \<le> 625 \<and> r = 80000000 / (4 * real j))"
    proof
      fix r assume r: "r \<in> set rng'"
      show "r \<le> 80000000 / (4 * real (i - 1)) \<and> r \<le> MAX_RATE / real n \<and>
        r \<in> \<int> \<and> (\<exists>j. 10 \<le> j \<and> j \<le> 625 \<and> r = 80000000 / (4 * real j))"
      proof (cases "r \<in> set rng")
        case True
        then show ?thesis using "1.prems"(3) mono unfolding rate_def by force
      next
        case False
        with r have "r = rate" "real_of_int \<lfloor>rate\<rfloor> = rate"
          by (auto simp: rng'_def split: if_splits)
        then show ?thesis
          using mono int True "1.prems"(2) unfolding rate_def by auto
      qed
    qed
    have "sorted (rates_loop n (i - 1) rng') \<and>
         (\<forall>r\<in>set (rates_loop n (i - 1) rng'). r \<le> MAX_RATE / real n \<and> r \<in> \<int> \<and>
           (\<exists>j. 10 \<le> j \<and> j \<le> 625 \<and> r = 80000000 / (4 * real j)))"
      unfolding rng'_def rate_def
    proof (rule "1.IH")
      show "10 \<le> i" using True by simp
      show "\<not> MAX_RATE / real n < 80000000 / (4 * real i)" using True by simp
      show "sorted (if real_of_int \<lfloor>80000000 / (4 * real i)\<rfloor> = 80000000 / (4 * real i)
              then rng @ [80000000 / (4 * real i)] else rng)"
        using srt unfolding rng'_def rate_def .
      show "i - 1 \<le> 625" using "1.prems"(2) by simp
      show "\<forall>r\<in>set (if real_of_int \<lfloor>80000000 / (4 * real i)\<rfloor> = 80000000 / (4 * real i)
              then rng @ [80000000 / (4 * real i)] else rng).
        r \<le> 80000000 / (4 * real (i - 1)) \<and> r \<le> MAX_RATE / real n \<and>
        r \<in> \<int> \<and> (\<exists>j. 10 \<le> j \<and> j \<le> 625 \<and> r = 80000000 / (4 * real j))"
        using bnd unfolding rng'_def rate_def .
    qed
    then show ?thesis unfolding step .
  qed
qed

lemma rates_loop_1:
  "rates_loop 1 625 [] =
     [32000, 40000, 50000, 62500, 78125, 80000, 100000, 125000, 156250, 160000, 200000,
      250000, 312500, 400000, 500000, 625000, 800000, 1000000, 1250000, 2000000]"
  by (simp add: rates_loop.simps MAX_RATE_def)

lemma rates_loop_2:
  "rates_loop 2 625 [] =
     [32000, 40000, 50000, 62500, 78125, 80000, 100000, 125000, 156250, 160000, 200000,
      250000, 312500, 400000, 500000, 625000, 800000, 1000000]"
  by (simp add: rates_loop.simps MAX_RATE_def)

text \<open>
  C5.  With one or two channels the list of sample rates is sorted in non-decreasing
  order, and each of its elements is a whole number, is at most 2,000,000 divided by
  the channel count, and is \<open>80e6/(4*i)\<close> for a divisor \<open>i\<close> between 10 and 625.  The
  two lists are given in full.
\<close>

theorem get_sample_rates_sorted_bounded:
  assumes "nchan s = 1 \<or> nchan s = 2"
  shows "sorted (get_sample_rates s) \<and>
    (\<forall>r\<in>set (get_sample_rates s). r \<le> 2000000 / real (nchan s) \<and> r \<in> \<int> \<and>
       (\<exists>i. 10 \<le> i \<and> i \<le> 625 \<and> r = 80000000 / (4 * real i))) \<and>
    (nchan s = 1 \<longrightarrow> get_sample_rates s =
       [32000, 40000, 50000, 62500, 78125, 80000, 100000, 125000, 156250, 160000, 200000,
        250000, 312500, 400000, 500000, 625000, 800000, 1000000, 1250000, 2000000]) \<and>
    (nchan s = 2 \<longrightarrow> get_sample_rates s =
       [32000, 40000, 50000, 62500, 78125, 80000, 100000, 125000, 156250, 160000, 200000,
        250000, 312500, 400000, 500000, 625000, 800000, 1000000])"
proof -
  have "sorted (rates_loop (nchan s) 625 []) \<and>
         (\<forall>r\<in>set (rates_loop (nchan s) 625 []). r \<le> MAX_RATE / real (nchan s) \<and> r \<in> \<int> \<and>
           (\<exists>j. 10 \<le> j \<and> j \<le> 625 \<and> r = 80000000 / (4 * real j)))"
    by (rule rates_loop_inv) simp_all
  then have "sorted (get_sample_rates s) \<and>
    (\<forall>r\<in>set (get_sample_rates s). r \<le> 2000000 / real (nchan s) \<and> r \<in> \<int> \<and>
       (\<exists>i. 10 \<le> i \<and> i \<le> 625 \<and> r = 80000000 / (4 * real i)))"
    unfolding get_sample_rates_def MAX_RATE_def .
  moreover have "nchan s = 1 \<longrightarrow> get_sample_rates s =
       [32000, 40000, 50000, 62500, 78125, 80000, 100000, 125000, 156250, 160000, 200000,
        250000, 312500, 400000, 500000, 625000, 800000, 1000000, 1250000, 2000000]"
    using rates_loop_1 by (simp add: get_sample_rates_def)
  moreover have "nchan s = 2 \<longrightarrow> get_sample_rates s =
       [32000, 40000, 50000, 62500, 78125, 80000, 100000, 125000, 156250, 160000, 200000,
        250000, 312500, 400000, 500000, 625000, 800000, 1000000]"
    using rates_loop_2 by (simp add: get_sample_rates_def)
  ultimately show ?thesis by blast
qed

theorem get_sample_rates_sorted_bounded_witness:
  "nchan (started 2) = 2 \<and> sorted (get_sample_rates (started 2)) \<and>
   get_sample_rates (started 2) =
       [32000, 40000, 50000, 62500, 78125, 80000, 100000, 125000, 156250, 160000, 200000,
        250000, 312500, 400000, 500000, 625000, 800000, 1000000]"
  using get_sample_rates_sorted_bounded [of "started 2"]
  by (simp add: started_def)

section \<open>Streaming decoder: properties\<close>

lemma rx_samples_unat:
  assumes "4 \<le> n" and "n \<le> 2048"
  shows "unat ((of_nat n - 2 - 2) div (2 * 2) :: 64 word) = (n - 4) div 4"
proof -
  have "(of_nat n - 2 - 2 :: 64 word) = of_nat (n - 4)"
    using assms(1) by (simp add: of_nat_diff)
  moreover have "unat (of_nat (n - 4) :: 64 word) = n - 4"
    using assms(2) by (simp add: unat_of_nat)
  ultimately show ?thesis
    by (simp add: unat_div)
qed

text \<open>A count of at most 2048 survives the conversion from \<open>size_t\<close> to \<open>int\<close>.\<close>

lemma size_t_to_int:
  assumes "unat (w :: 64 word) \<le> 2048"
  shows "sint (ucast w :: 32 word) = int (unat w)"
proof -
  have un: "uint w = int (unat w)"
    by (rule uint_nat)
  have u: "uint w \<le> 2048" "0 \<le> uint w"
    using assms un by linarith+
  have "uint (ucast w :: 32 word) = take_bit 32 (uint w)"
    by (simp add: unsigned_ucast_eq)
  also have "\<dots> = uint w"
    using u by (intro take_bit_int_eq_self) simp_all
  finally have "sint (ucast w :: 32 word) = signed_take_bit 31 (uint w)"
    by (simp add: sint_uint)
  also have "\<dots> = uint w"
  proof (rule signed_take_bit_int_eq_self)
    have "- (2 ^ 31) \<le> (0 :: int)" by simp
    then show "- (2 ^ 31) \<le> uint w" using u(2) by (rule order_trans)
    show "uint w < 2 ^ 31" using u(1) by simp
  qed
  finally have "sint (ucast w :: 32 word) = uint w" .
  then show ?thesis unfolding un .
qed

lemma loop1_map:
  "loop1 data n i p =
     map (\<lambda>k. (sample_at data (p + 2 * k) * SCALE_16, sample_at data (p + 2 * k + 1) * SCALE_16))
       [0..<n - i]"
proof (induction data n i p rule: loop1.induct)
  case (1 data n i p)
  show ?case
  proof (cases "i < n")
    case True
    then have "n - i = Suc (n - (i + 1))" by simp
    then have "[0..<n - i] = 0 # map Suc [0..<n - (i + 1)]"
      by (simp only: upt_conv_Cons map_Suc_upt)
    with True "1.IH" show ?thesis
      apply (subst loop1.simps)
      apply (simp add: comp_def)
      done
  next
    case False
    then show ?thesis by (subst loop1.simps) simp
  qed
qed

lemma loop2_map:
  "loop2 data n i p =
     (map (\<lambda>k. (sample_at data (p + 4 * k) * SCALE_16, sample_at data (p + 4 * k + 1) * SCALE_16))
        [0..<n - i],
      map (\<lambda>k. (sample_at data (p + 4 * k + 2) * SCALE_16, sample_at data (p + 4 * k + 3) * SCALE_16))
        [0..<n - i])"
proof (induction data n i p rule: loop2.induct)
  case (1 data n i p)
  show ?case
  proof (cases "i < n")
    case True
    then have "n - i = Suc (n - (i + 1))" by simp
    then have "[0..<n - i] = 0 # map Suc [0..<n - (i + 1)]"
      by (simp only: upt_conv_Cons map_Suc_upt)
    with True "1.IH" show ?thesis
      apply (subst loop2.simps)
      apply (simp add: comp_def add.assoc)
      done
  next
    case False
    then show ?thesis by (subst loop2.simps) simp
  qed
qed

text \<open>
  What \<open>work\<close> does with a datagram that has a 16-bit header and at least the four
  bytes of header and sequence number.
\<close>

lemma work_accepted:
  fixes stale :: "nat \<Rightarrow> byte" and s :: session and dgram :: "byte list"
  assumes run: "running s" and len: "4 \<le> length dgram"
    and h0: "dgram ! 0 = 0x04" and h1: "dgram ! 1 = 0x84 \<or> dgram ! 1 = 0x82"
  defines "n \<equiv> min (length dgram) (1024 * 2)"
  defines "sq \<equiv> (word_cat (dgram ! 3) (dgram ! 2) :: 16 word)"
  defines "data \<equiv> (\<lambda>i. if i < n then dgram ! i else stale i)"
  defines "cnt \<equiv> (if nchan s = 2 then (n - 4) div 4 div 2 else (n - 4) div 4)"
  shows "work stale (Datagram dgram) s =
    (Inr \<lparr>noutput_items = int cnt,
          out1 = (if nchan s = 1 then loop1 data cnt 0 0
                  else if nchan s = 2 then fst (loop2 data cnt 0 0) else []),
          out2 = (if nchan s = 2 then snd (loop2 data cnt 0 0) else []),
          lost = (if sq - sequence s > 1 then Some (sq - sequence s) else None)\<rparr>,
     s\<lparr>sequence := (if sq = 0xffff then 0 else sq)\<rparr>)"
proof -
  define rx_samples where "rx_samples = ((of_nat n - 2 - 2) div (2 * 2) :: 64 word)"
  have n: "4 \<le> n" "n \<le> 2048"
    using len by (simp_all add: n_def)
  have u: "unat rx_samples = (n - 4) div 4"
    unfolding rx_samples_def using n by (rule rx_samples_unat)
  have u2: "unat (rx_samples div 2) = (n - 4) div 4 div 2"
    by (simp add: unat_div u)
  have "unat rx_samples \<le> 2048"
    using n by (simp add: u)
  then have "sint (ucast rx_samples :: 32 word) = int (unat rx_samples)"
    by (rule size_t_to_int)
  then have r1: "sint (ucast rx_samples :: 32 word) = int ((n - 4) div 4)"
    by (simp only: u)
  have "unat (rx_samples div 2) \<le> 2048"
    using n by (simp add: u2)
  then have "sint (ucast (rx_samples div 2) :: 32 word) = int (unat (rx_samples div 2))"
    by (rule size_t_to_int)
  then have r2: "sint (ucast (rx_samples div 2) :: 32 word) = int ((n - 4) div 4 div 2)"
    by (simp only: u2)
  have f1: "\<not> 1024 * 2 < 2 + 2 + 4 * unat rx_samples"
    using n by (simp add: u)
  have f2: "\<not> 1024 * 2 < 2 + 2 + 8 * unat (rx_samples div 2)"
    using n by (simp add: u2)
  have d: "(if 0 < n then dgram ! 0 else stale 0) = dgram ! 0"
    "(if 1 < n then dgram ! 1 else stale 1) = dgram ! 1"
    "(if 2 < n then dgram ! 2 else stale 2) = dgram ! 2"
    "(if 3 < n then dgram ! 3 else stale 3) = dgram ! 3"
    using n by simp_all
  have hdr: "0x04 = dgram ! 0 \<and> (0x84 = dgram ! 1 \<or> 0x82 = dgram ! 1)"
    using h0 h1 by auto
  show ?thesis
    unfolding work_def Let_def
    apply (simp only: run udp_event.case not_True_eq_False if_False)
    apply (fold n_def)
    apply (simp only: d hdr if_True)
    apply (fold sq_def rx_samples_def data_def)
    apply (simp only: f1 f2 if_False r1 r2)
    apply (simp only: u u2)
    apply (simp add: cnt_def)
    done
qed

lemma sample_at_payload:
  fixes stale :: "nat \<Rightarrow> byte"
  assumes "4 + 2 * k + 1 < n"
  shows "sample_at (\<lambda>i. if i < n then dgram ! i else stale i) k = payload_s16 dgram k"
  using assms by (simp add: sample_at_def payload_s16_def)

text \<open>
  The samples of a datagram of at least four bytes with a 16-bit header, \<open>n\<close> being the
  number of bytes received (at most the 2048 of the buffer): one channel gets
  \<open>(n-4) div 4\<close> samples, two channels get \<open>(n-4) div 4 div 2\<close> samples each, every
  sample being the pair of consecutive 16-bit values divided by 32768, in arrival order.
\<close>

lemma work_decode:
  fixes stale :: "nat \<Rightarrow> byte" and s :: session and dgram :: "byte list"
  assumes run: "running s" and len: "4 \<le> length dgram"
    and h0: "dgram ! 0 = 0x04" and h1: "dgram ! 1 = 0x84 \<or> dgram ! 1 = 0x82"
  defines "n \<equiv> min (length dgram) 2048"
  shows "\<exists>r s'. work stale (Datagram dgram) s = (Inr r, s') \<and>
    (nchan s = 1 \<longrightarrow>
       noutput_items r = int ((n - 4) div 4) \<and>
       out1 r = map (\<lambda>i. (payload_s16 dgram (2 * i) / 32768,
                            payload_s16 dgram (2 * i + 1) / 32768)) [0..<(n - 4) div 4]) \<and>
    (nchan s = 2 \<longrightarrow>
       noutput_items r = int ((n - 4) div 4 div 2) \<and>
       out1 r = map (\<lambda>i. (payload_s16 dgram (4 * i) / 32768,
                            payload_s16 dgram (4 * i + 1) / 32768)) [0..<(n - 4) div 4 div 2] \<and>
       out2 r = map (\<lambda>i. (payload_s16 dgram (4 * i + 2) / 32768,
                            payload_s16 dgram (4 * i + 3) / 32768)) [0..<(n - 4) div 4 div 2])"
proof -
  have n': "n = min (length dgram) (1024 * 2)"
    by (simp add: n_def)
  have one: "map (\<lambda>k. (sample_at (\<lambda>i. if i < n then dgram ! i else stale i) (0 + 2 * k) * SCALE_16,
                       sample_at (\<lambda>i. if i < n then dgram ! i else stale i) (0 + 2 * k + 1) * SCALE_16))
               [0..<(n - 4) div 4 - 0] =
             map (\<lambda>i. (payload_s16 dgram (2 * i) / 32768,
                        payload_s16 dgram (2 * i + 1) / 32768)) [0..<(n - 4) div 4]"
    by (rule map_cong) (auto simp: sample_at_payload SCALE_16_def)
  have two1: "map (\<lambda>k. (sample_at (\<lambda>i. if i < n then dgram ! i else stale i) (0 + 4 * k) * SCALE_16,
                       sample_at (\<lambda>i. if i < n then dgram ! i else stale i) (0 + 4 * k + 1) * SCALE_16))
               [0..<(n - 4) div 4 div 2 - 0] =
             map (\<lambda>i. (payload_s16 dgram (4 * i) / 32768,
                        payload_s16 dgram (4 * i + 1) / 32768)) [0..<(n - 4) div 4 div 2]"
    by (rule map_cong) (auto simp: sample_at_payload SCALE_16_def)
  have two2: "map (\<lambda>k. (sample_at (\<lambda>i. if i < n then dgram ! i else stale i) (0 + 4 * k + 2) * SCALE_16,
                       sample_at (\<lambda>i. if i < n then dgram ! i else stale i) (0 + 4 * k + 3) * SCALE_16))
               [0..<(n - 4) div 4 div 2 - 0] =
             map (\<lambda>i. (payload_s16 dgram (4 * i + 2) / 32768,
                        payload_s16 dgram (4 * i + 3) / 32768)) [0..<(n - 4) div 4 div 2]"
    by (rule map_cong) (auto simp: sample_at_payload SCALE_16_def)
  show ?thesis
    unfolding work_accepted [OF run len h0 h1, of stale] n' [symmetric] loop1_map loop2_map
    using one two1 two2 by simp
qed

text \<open>
  A datagram of at least two bytes whose header is not one of the two 16-bit headers
  (the 24-bit headers among them) gives zero items, no error and an unchanged session.
\<close>

lemma work_unsupported:
  fixes stale :: "nat \<Rightarrow> byte"
  assumes run: "running s" and len: "2 \<le> length dgram"
    and hdr: "\<not> (dgram ! 0 = 0x04 \<and> (dgram ! 1 = 0x84 \<or> dgram ! 1 = 0x82))"
  shows "work stale (Datagram dgram) s = (Inr (no_items 0), s)"
proof -
  define n where "n = min (length dgram) (1024 * 2)"
  have n: "2 \<le> n"
    using len by (simp add: n_def)
  have d: "(if 0 < n then dgram ! 0 else stale 0) = dgram ! 0"
    "(if 1 < n then dgram ! 1 else stale 1) = dgram ! 1"
    using n by simp_all
  have nh: "(0x04 = dgram ! 0 \<and> (0x84 = dgram ! 1 \<or> 0x82 = dgram ! 1)) = False"
    using hdr by (auto simp: eq_commute)
  show ?thesis
    unfolding work_def Let_def
    apply (simp only: run udp_event.case not_True_eq_False if_False)
    apply (fold n_def)
    apply (simp only: d nh if_False if_cancel)
    done
qed

text \<open>
  C2, as amended.  For a datagram with a 16-bit header and at least four bytes, \<open>work\<close>
  takes the little-endian 16-bit sequence number, reports a loss exactly when the
  wrapping 16-bit difference to the stored sequence is greater than 1, the count being
  that difference, and stores the new sequence, except that \<open>FFFF\<close> is stored as 0.
  From the start state (stored sequence 0) the sequences 100, 101, 105 give a report of
  100 for the first datagram and one more report, of 4, for the third; the sequences
  \<open>FFFE\<close>, \<open>FFFF\<close>, \<open>0000\<close> give a report for the first datagram and none after it, the
  stored sequence being 0 after the second and after the third.
\<close>

theorem work_sequence_tracking:
  fixes stale :: "nat \<Rightarrow> byte" and s :: session and dgram :: "byte list"
  assumes "running s" and "4 \<le> length dgram"
    and "dgram ! 0 = 0x04" and "dgram ! 1 = 0x84 \<or> dgram ! 1 = 0x82"
  defines "sq \<equiv> (word_cat (dgram ! 3) (dgram ! 2) :: 16 word)"
  shows "(\<exists>r. work stale (Datagram dgram) s =
                (Inr r, s\<lparr>sequence := (if sq = 0xffff then 0 else sq)\<rparr>) \<and>
              lost r = (if sq - sequence s > 1 then Some (sq - sequence s) else None)) \<and>
    reports (fst (work_each stale
       [[0x04, 0x84, 100, 0], [0x04, 0x84, 101, 0], [0x04, 0x84, 105, 0]] (started 1))) =
      [Inr (Some 100), Inr None, Inr (Some 4)] \<and>
    reports (fst (work_each stale
       [[0x04, 0x84, 0xFE, 0xFF], [0x04, 0x84, 0xFF, 0xFF], [0x04, 0x84, 0x00, 0x00]] (started 1))) =
      [Inr (Some 0xFFFE), Inr None, Inr None] \<and>
    sequence (snd (work_each stale
       [[0x04, 0x84, 0xFE, 0xFF], [0x04, 0x84, 0xFF, 0xFF]] (started 1))) = 0 \<and>
    sequence (snd (work_each stale
       [[0x04, 0x84, 0xFE, 0xFF], [0x04, 0x84, 0xFF, 0xFF], [0x04, 0x84, 0x00, 0x00]] (started 1))) = 0"
proof (intro conjI)
  show "\<exists>r. work stale (Datagram dgram) s =
                (Inr r, s\<lparr>sequence := (if sq = 0xffff then 0 else sq)\<rparr>) \<and>
              lost r = (if sq - sequence s > 1 then Some (sq - sequence s) else None)"
    unfolding work_accepted [OF assms(1-4), of stale] sq_def by simp
  show "reports (fst (work_each stale
       [[0x04, 0x84, 100, 0], [0x04, 0x84, 101, 0], [0x04, 0x84, 105, 0]] (started 1))) =
      [Inr (Some 100), Inr None, Inr (Some 4)]"
    by (simp add: reports_def work_def Let_def started_def word_cat_eq)
  show "reports (fst (work_each stale
       [[0x04, 0x84, 0xFE, 0xFF], [0x04, 0x84, 0xFF, 0xFF], [0x04, 0x84, 0x00, 0x00]] (started 1))) =
      [Inr (Some 0xFFFE), Inr None, Inr None]"
    by (simp add: reports_def work_def Let_def started_def word_cat_eq)
  show "sequence (snd (work_each stale
       [[0x04, 0x84, 0xFE, 0xFF], [0x04, 0x84, 0xFF, 0xFF]] (started 1))) = 0"
    by (simp add: work_def Let_def started_def word_cat_eq)
  show "sequence (snd (work_each stale
       [[0x04, 0x84, 0xFE, 0xFF], [0x04, 0x84, 0xFF, 0xFF], [0x04, 0x84, 0x00, 0x00]] (started 1))) = 0"
    by (simp add: work_def Let_def started_def word_cat_eq)
qed

theorem work_sequence_tracking_witness:
  "\<exists>r. work zeroed (Datagram [0x04, 0x84, 0x69, 0x00]) ((started 1)\<lparr>sequence := 101\<rparr>) =
          (Inr r, (started 1)\<lparr>sequence := 105\<rparr>) \<and> lost r = Some 4"
  using work_sequence_tracking [of "(started 1)\<lparr>sequence := 101\<rparr>"
      "[0x04, 0x84, 0x69, 0x00]" zeroed]
  by (simp add: started_def word_cat_eq)

text \<open>
  C2 as stated fails.  From the start state the sequences 100, 101, 105 give two loss
  reports, not one; and the sequence \<open>FFFF\<close> is not stored as it is but as 0, so that a
  following sequence 0 has difference 0, not 1.
\<close>

theorem work_sequence_counterexample:
  "reports (fst (work_each zeroed
       [[0x04, 0x84, 100, 0], [0x04, 0x84, 101, 0], [0x04, 0x84, 105, 0]] (started 1))) =
      [Inr (Some 100), Inr None, Inr (Some 4)] \<and>
   sequence (snd (work zeroed (Datagram [0x04, 0x84, 0xFF, 0xFF])
       ((started 1)\<lparr>sequence := 0xFFFE\<rparr>))) = 0 \<and>
   sequence (snd (work zeroed (Datagram [0x04, 0x84, 0xFF, 0xFF])
       ((started 1)\<lparr>sequence := 0xFFFE\<rparr>))) \<noteq> 0xFFFF"
  by (simp add: reports_def work_def Let_def started_def word_cat_eq)

text \<open>
  The sample count of a datagram of two bytes: \<open>2 - HEADER_SIZE - SEQNUM_SIZE\<close> wraps in
  \<open>size_t\<close>, and the count converted to \<open>int\<close> is -1, the value of \<open>WORK_DONE\<close>.
\<close>

lemma rx_samples_wraps:
  "((of_nat (length [0x04 :: byte, 0x84]) - 2 - 2) div (2 * 2) :: 64 word) = 0x3FFFFFFFFFFFFFFF \<and>
   sint (ucast (0x3FFFFFFFFFFFFFFF :: 64 word) :: 32 word) = WORK_DONE"
  by (simp add: WORK_DONE_def)

text \<open>
  C3 fails on a datagram with a 16-bit header that is shorter than four bytes: for
  the three bytes \<open>04 84 07\<close> the decoder does not produce \<open>floor(available_pairs /
  channel_count)\<close> samples, namely none, but runs its copy loop out of the receive
  buffer, with one channel as with two.  (From four bytes on the count and the samples
  are the claimed ones: \<open>work_decode\<close>.)
\<close>

theorem work_three_byte_datagram:
  "fst (work stale (Datagram [0x04, 0x84, 0x07]) (started 1)) = Inl MemoryFault \<and>
   fst (work stale (Datagram [0x04, 0x84, 0x07]) (started 2)) = Inl MemoryFault"
  by (simp add: work_def Let_def started_def)

text \<open>
  C4 fails on the short datagram \<open>04 84\<close>: the call does not produce zero samples, it
  runs the copy loop out of the receive buffer.  (A datagram of at least two bytes with
  any other header does give zero samples: \<open>work_unsupported\<close>.)
\<close>

theorem work_two_byte_datagram:
  "fst (work stale (Datagram [0x04, 0x84]) (started 1)) = Inl MemoryFault \<and>
   fst (work stale (Datagram [0x04, 0x84]) (started 1)) \<noteq> Inr (no_items 0)"
  by (simp add: work_def Let_def started_def)

end
